theory Spec2Isabelle
  imports Complex_Main
begin

section \<open>The survey report generator (\<^verbatim>\<open>src/utils/reportGenerator.js\<close>)\<close>

text \<open>
  The analysis of \<^verbatim>\<open>ReportGenerator.generateAnalysis\<close> and the scorer
  \<^verbatim>\<open>calculateSatisfactionPercentage\<close> are embedded as HOL functions over the rows
  that the CSV reader yields.

  Conventions of the embedding.
  \<^item> A JavaScript string is a \<^typ>\<open>string\<close>; one \<^typ>\<open>char\<close> stands for one code unit
    below 256. White space is what \<^verbatim>\<open>trim\<close> and \<^verbatim>\<open>\s\<close> accept in that range.
  \<^item> A value that may be \<^verbatim>\<open>undefined\<close> is a \<^typ>\<open>string option\<close>, with \<open>None\<close> for
    \<^verbatim>\<open>undefined\<close>.
  \<^item> A row is the object of one CSV record: its own properties in the order of
    \<^verbatim>\<open>Object.keys\<close>, every value a string.
  \<^item> Numbers are exact: scores are rationals and counters are naturals. The rounding
    of the doubles of the source is not part of the embedding.
  \<^item> An exception is a value \<open>Inl e\<close> of a sum type.
\<close>

subsection \<open>Strings, properties and regular expressions\<close>

type_synonym row = "(string \<times> string) list"

text \<open>\<^verbatim>\<open>r[k]\<close> on a row, and \<^verbatim>\<open>Object.keys(r)\<close>.\<close>

definition getProp :: "row \<Rightarrow> string \<Rightarrow> string option" where
  "getProp r k = map_of r k"

definition Object_keys :: "row \<Rightarrow> string list" where
  "Object_keys r = map fst r"

text \<open>\<^verbatim>\<open>!v\<close> for a string or \<^verbatim>\<open>undefined\<close>: the empty string and \<^verbatim>\<open>undefined\<close> are falsy.\<close>

definition falsy :: "string option \<Rightarrow> bool" where
  "falsy v = (case v of None \<Rightarrow> True | Some s \<Rightarrow> s = [])"

text \<open>A value inside a template literal, and as a property name: \<^verbatim>\<open>`${v}`\<close>.\<close>

definition template :: "string option \<Rightarrow> string" where
  "template v = (case v of None \<Rightarrow> ''undefined'' | Some s \<Rightarrow> s)"

definition startsWith :: "string \<Rightarrow> string \<Rightarrow> bool" where
  "startsWith s p = (take (length p) s = p)"

text \<open>\<^verbatim>\<open>s.split(c)\<close> for a one-character separator: never empty, \<^verbatim>\<open>"".split(c)\<close> is \<^verbatim>\<open>[""]\<close>.\<close>

fun split :: "char \<Rightarrow> string \<Rightarrow> string list" where
  "split c [] = [[]]"
| "split c (x # xs) =
     (if x = c then [] # split c xs
      else (case split c xs of [] \<Rightarrow> [[x]] | w # ws \<Rightarrow> (x # w) # ws))"

text \<open>\<^verbatim>\<open>key.split(" ")[1]\<close>: \<^verbatim>\<open>undefined\<close> when the key has no space.\<close>

definition splitSecond :: "string \<Rightarrow> string option" where
  "splitSecond key = (case split CHR '' '' key of a # b # rest \<Rightarrow> Some b | _ \<Rightarrow> None)"

definition isWhiteSpace :: "char \<Rightarrow> bool" where
  "isWhiteSpace c =
     (c \<in> set [CHR 0x09, CHR 0x0A, CHR 0x0B, CHR 0x0C, CHR 0x0D, CHR 0x20, CHR 0xA0])"

definition trim :: "string \<Rightarrow> string" where
  "trim s = rev (dropWhile isWhiteSpace (rev (dropWhile isWhiteSpace s)))"

definition isDigit :: "char \<Rightarrow> bool" where
  "isDigit c = (c \<in> set ''0123456789'')"

text \<open>\<^verbatim>\<open>/^[1-5]$/.test(s)\<close>\<close>

definition isBareStar :: "string \<Rightarrow> bool" where
  "isBareStar s = (case s of [c] \<Rightarrow> c \<in> set ''12345'' | _ \<Rightarrow> False)"

text \<open>The literal part \<^verbatim>\<open>star\<close> of the pattern under the flag \<^verbatim>\<open>i\<close>, at the head of a string.\<close>

definition starWord :: "string \<Rightarrow> bool" where
  "starWord s =
     (case s of
        c1 # c2 # c3 # c4 # rest \<Rightarrow>
          c1 \<in> set ''sS'' \<and> c2 \<in> set ''tT'' \<and> c3 \<in> set ''aA'' \<and> c4 \<in> set ''rR''
      | _ \<Rightarrow> False)"

text \<open>
  \<^verbatim>\<open>/(\d+)\s*stars?/i\<close> tried at the head of a string: the digits of group 1 when
  it matches there. The digits and the white space are taken greedily; giving one back
  never helps, since \<^verbatim>\<open>star\<close> begins with neither. The optional \<^verbatim>\<open>s\<close> changes nothing
  of group 1.
\<close>

definition starMatchHere :: "string \<Rightarrow> string option" where
  "starMatchHere s =
     (let digits = takeWhile isDigit s;
          rest = dropWhile isWhiteSpace (dropWhile isDigit s)
      in if digits \<noteq> [] \<and> starWord rest then Some digits else None)"

text \<open>\<^verbatim>\<open>s.match(/(\d+)\s*stars?/i)\<close>: group 1 of the leftmost match, \<open>None\<close> for \<^verbatim>\<open>null\<close>.\<close>

fun starMatch :: "string \<Rightarrow> string option" where
  "starMatch [] = None"
| "starMatch (c # cs) =
     (case starMatchHere (c # cs) of Some digits \<Rightarrow> Some digits | None \<Rightarrow> starMatch cs)"

definition digitValue :: "char \<Rightarrow> nat" where
  "digitValue c = of_char c - 48"

text \<open>\<^verbatim>\<open>Number.parseInt\<close> on group 1 (decimal digits only): \<open>None\<close> stands for \<^verbatim>\<open>NaN\<close>.\<close>

definition parseInt :: "string \<Rightarrow> nat option" where
  "parseInt s =
     (let digits = takeWhile isDigit s
      in if digits = [] then None
         else Some (fold (\<lambda>c n. 10 * n + digitValue c) digits 0))"

text \<open>\<^verbatim>\<open>Math.round\<close>: the nearest integer, a half rounded up.\<close>

definition Math_round :: "rat \<Rightarrow> int" where
  "Math_round x = \<lfloor>x + 1 / 2\<rfloor>"

subsection \<open>The scorer: \<^verbatim>\<open>calculateSatisfactionPercentage\<close>\<close>

record totals =
  satisfactionScore :: rat
  dissatisfactionScore :: rat
  satisfactionQuestions :: nat
  dissatisfactionQuestions :: nat

record metrics =
  satisfaction :: int
  dissatisfaction :: int

definition noTotals :: totals where
  "noTotals = \<lparr>satisfactionScore = 0, dissatisfactionScore = 0,
                satisfactionQuestions = 0, dissatisfactionQuestions = 0\<rparr>"

definition satisfactionLevels :: "(string \<times> rat) list" where
  "satisfactionLevels =
     [(''Very Satisfied'', 100), (''Satisfied'', 75), (''Neutral'', 50),
      (''Dissatisfied'', 25), (''Very Dissatisfied'', 0)]"

text \<open>
  The body of the inner loop once \<^verbatim>\<open>answer\<close> and \<^verbatim>\<open>question\<close> are known to be
  truthy: the star branch, then the branch of the satisfaction levels.
\<close>

definition scoreAnswer :: "string \<Rightarrow> totals \<Rightarrow> totals" where
  "scoreAnswer answer t =
     (case starMatch answer of
        Some group1 \<Rightarrow>
          (case parseInt group1 of
             None \<Rightarrow> t
           | Some stars \<Rightarrow>
               if stars \<ge> 3
               then t\<lparr>satisfactionScore := satisfactionScore t + (of_nat stars / 5) * 100,
                      satisfactionQuestions := satisfactionQuestions t + 1\<rparr>
               else t\<lparr>dissatisfactionScore :=
                        dissatisfactionScore t + ((5 - of_nat stars) / 5) * 100,
                      dissatisfactionQuestions := dissatisfactionQuestions t + 1\<rparr>)
      | None \<Rightarrow>
          (let answerKey = trim answer
           in case map_of satisfactionLevels answerKey of
                None \<Rightarrow> t
              | Some level \<Rightarrow>
                  if answerKey \<in> set [''Very Satisfied'', ''Satisfied'']
                  then t\<lparr>satisfactionScore := satisfactionScore t + level,
                         satisfactionQuestions := satisfactionQuestions t + 1\<rparr>
                  else if answerKey \<in> set [''Dissatisfied'', ''Very Dissatisfied'']
                  then t\<lparr>dissatisfactionScore := dissatisfactionScore t + (100 - level),
                         dissatisfactionQuestions := dissatisfactionQuestions t + 1\<rparr>
                  else t))"

text \<open>One key of one response: the callback of \<^verbatim>\<open>Object.keys(response).forEach\<close>.\<close>

definition scoreKey :: "row \<Rightarrow> string \<Rightarrow> totals \<Rightarrow> totals" where
  "scoreKey response key t =
     (if startsWith key ''Answer''
      then (let answer = getProp response key;
                questionKey = ''Question '' @ template (splitSecond key);
                question = getProp response questionKey
            in if falsy answer \<or> falsy question then t
               else (case answer of None \<Rightarrow> t | Some a \<Rightarrow> scoreAnswer a t))
      else t)"

definition scoreResponse :: "row \<Rightarrow> totals \<Rightarrow> totals" where
  "scoreResponse response t = fold (scoreKey response) (Object_keys response) t"

definition scoreResponses :: "row list \<Rightarrow> totals" where
  "scoreResponses responses = fold scoreResponse responses noTotals"

definition calculateSatisfactionPercentage :: "row list \<Rightarrow> metrics" where
  "calculateSatisfactionPercentage responses =
     (let t = scoreResponses responses
      in \<lparr>satisfaction =
            (if satisfactionQuestions t > 0
             then Math_round (satisfactionScore t / of_nat (satisfactionQuestions t))
             else 0),
          dissatisfaction =
            (if dissatisfactionQuestions t > 0
             then Math_round (dissatisfactionScore t / of_nat (dissatisfactionQuestions t))
             else 0)\<rparr>)"

subsection \<open>The classifier: \<^verbatim>\<open>determineQuestionType\<close>\<close>

datatype questionType = StarRating | Checkbox | MCQ | Text

definition mcqOptions :: "string list" where
  "mcqOptions = [''Very Satisfied'', ''Satisfied'', ''Neutral'', ''Dissatisfied'',
                 ''Very Dissatisfied'']"

text \<open>The second parameter is received and never read, as in the source.\<close>

definition determineQuestionType :: "string option \<Rightarrow> string list \<Rightarrow> questionType" where
  "determineQuestionType answer allAnswers =
     (case answer of
        None \<Rightarrow> Text
      | Some a \<Rightarrow>
          if a = [] then Text
          else if isBareStar (trim a) then StarRating
          else if starMatch a \<noteq> None then StarRating
          else if CHR '','' \<in> set a then Checkbox
          else if trim a \<in> set mcqOptions then MCQ
          else Text)"

subsection \<open>The analysis: \<^verbatim>\<open>generateAnalysis\<close>\<close>

datatype error = CsvFileEmpty | TypeError

text \<open>
  The property names every object literal inherits from \<^verbatim>\<open>Object.prototype\<close>: reading
  one of them from \<^verbatim>\<open>{}\<close> yields a function or an object, which is truthy.
\<close>

definition objectPrototypeNames :: "string list" where
  "objectPrototypeNames =
     [''constructor'', ''__defineGetter__'', ''__defineSetter__'', ''hasOwnProperty'',
      ''__lookupGetter__'', ''__lookupSetter__'', ''isPrototypeOf'',
      ''propertyIsEnumerable'', ''toString'', ''valueOf'', ''__proto__'',
      ''toLocaleString'']"

text \<open>
  A value of the \<^verbatim>\<open>responses\<close> object: a count, or the string that \<^verbatim>\<open>+ 1\<close> makes of
  an inherited property (its text is left abstract).
\<close>

datatype tally = Num nat | Str

text \<open>\<^verbatim>\<open>responses[k] = (responses[k] || 0) + 1\<close>\<close>

definition increment :: "(string \<rightharpoonup> tally) \<Rightarrow> string \<Rightarrow> (string \<rightharpoonup> tally)" where
  "increment counts k =
     (case counts k of
        Some (Num n) \<Rightarrow> counts(k \<mapsto> Num (n + 1))
      | Some Str \<Rightarrow> counts(k \<mapsto> Str)
      | None \<Rightarrow>
          if k = ''__proto__'' then counts
          else if k \<in> set objectPrototypeNames then counts(k \<mapsto> Str)
          else counts(k \<mapsto> Num 1))"

record questionEntry =
  question :: "string option"
  responses :: "string \<rightharpoonup> tally"
  responseCount :: nat
  type :: questionType

type_synonym questionAnalysis = "string \<rightharpoonup> questionEntry"

text \<open>Exceptions stop a \<^verbatim>\<open>forEach\<close>: the fold of a step that may fail.\<close>

fun forEach :: "('a \<Rightarrow> 's \<Rightarrow> error + 's) \<Rightarrow> 'a list \<Rightarrow> 's \<Rightarrow> error + 's" where
  "forEach f [] s = Inr s"
| "forEach f (x # xs) s = (case f x s of Inl e \<Rightarrow> Inl e | Inr s' \<Rightarrow> forEach f xs s')"

text \<open>The tallying of one truthy answer into the entry of its question.\<close>

definition tallyAnswer :: "string \<Rightarrow> questionEntry \<Rightarrow> questionEntry" where
  "tallyAnswer answer e =
     (let e' =
        (if type e = StarRating
         then (let starValue = trim answer
               in if isBareStar starValue
                  then e\<lparr>responses := increment (responses e) starValue\<rparr>
                  else e)
         else if type e = Checkbox
         then (let options = map trim (split CHR '','' answer)
               in e\<lparr>responses := fold (\<lambda>opt r. increment r opt) options (responses e)\<rparr>)
         else e\<lparr>responses := increment (responses e) answer\<rparr>)
      in e'\<lparr>responseCount := responseCount e' + 1\<rparr>)"

text \<open>
  One key of one response of a department. A question number that names a property of
  \<^verbatim>\<open>Object.prototype\<close> finds that property instead of an entry: no entry is made, and
  the first answer to tally reads \<^verbatim>\<open>.responses[answer]\<close> of \<^verbatim>\<open>undefined\<close>.
\<close>

definition analyseKey ::
  "row list \<Rightarrow> row \<Rightarrow> string \<Rightarrow> questionAnalysis \<Rightarrow> error + questionAnalysis" where
  "analyseKey deptResponses response key qa =
     (if startsWith key ''Question''
      then
        (let qNum = template (splitSecond key);
             answerKey = ''Answer '' @ qNum;
             question = getProp response key;
             answer = getProp response answerKey
         in if qa qNum = None \<and> qNum \<in> set objectPrototypeNames
            then (if falsy answer \<or> answer = Some ''No answer'' then Inr qa
                  else Inl TypeError)
            else
              (let allAnswersForQuestion =
                     concat (map (\<lambda>r. case getProp r answerKey of
                                         None \<Rightarrow> []
                                       | Some a \<Rightarrow>
                                           if a = [] \<or> a = ''No answer'' then [] else [a])
                                 deptResponses);
                   qa1 = (case qa qNum of
                            None \<Rightarrow>
                              qa(qNum \<mapsto>
                                \<lparr>question = question, responses = Map.empty,
                                 responseCount = 0,
                                 type = determineQuestionType answer allAnswersForQuestion\<rparr>)
                          | Some e \<Rightarrow> qa)
               in if falsy answer \<or> answer = Some ''No answer'' then Inr qa1
                  else (case (answer, qa1 qNum) of
                          (Some a, Some e) \<Rightarrow> Inr (qa1(qNum \<mapsto> tallyAnswer a e))
                        | _ \<Rightarrow> Inr qa1)))
      else Inr qa)"

definition analyseResponse ::
  "row list \<Rightarrow> row \<Rightarrow> questionAnalysis \<Rightarrow> error + questionAnalysis" where
  "analyseResponse deptResponses response qa =
     forEach (analyseKey deptResponses response) (Object_keys response) qa"

definition analyseDepartment :: "row list \<Rightarrow> error + questionAnalysis" where
  "analyseDepartment deptResponses =
     forEach (analyseResponse deptResponses) deptResponses Map.empty"

text \<open>\<^verbatim>\<open>[...new Set(xs)]\<close>: the distinct values in the order of their first occurrence.\<close>

definition setAdd :: "'a list \<Rightarrow> 'a \<Rightarrow> 'a list" where
  "setAdd s x = (if x \<in> set s then s else s @ [x])"

definition newSet :: "'a list \<Rightarrow> 'a list" where
  "newSet xs = fold (\<lambda>x s. setAdd s x) xs []"

definition departmentsOf :: "row list \<Rightarrow> string option list" where
  "departmentsOf csvResponses = newSet (map (\<lambda>r. getProp r ''Department'') csvResponses)"

definition deptResponsesOf :: "row list \<Rightarrow> string option \<Rightarrow> row list" where
  "deptResponsesOf csvResponses dept = filter (\<lambda>r. getProp r ''Department'' = dept) csvResponses"

text \<open>
  The first loop over the departments; the state is the pair
  \<^verbatim>\<open>(highestDissatisfactionDept, highestDissatisfactionRate)\<close>.
\<close>

definition highestStep ::
  "row list \<Rightarrow> string option \<Rightarrow> string option \<times> int \<Rightarrow> string option \<times> int" where
  "highestStep csvResponses dept st =
     (let deptResponses = deptResponsesOf csvResponses dept;
          deptMetrics = calculateSatisfactionPercentage deptResponses
      in if dissatisfaction deptMetrics > snd st
         then (dept, dissatisfaction deptMetrics)
         else st)"

definition highestDissatisfaction :: "row list \<Rightarrow> string option \<times> int" where
  "highestDissatisfaction csvResponses =
     fold (highestStep csvResponses) (departmentsOf csvResponses) (Some [], 0)"

text \<open>The text \<^verbatim>\<open>`${n}%`\<close> of a percentage.\<close>

datatype percentText = Percent int

record overview =
  numberOfDepartments :: nat
  averageSatisfaction :: percentText
  averageDissatisfaction :: percentText
  departmentWithHighestDissatisfaction :: string
  highestDissatisfactionRate :: int

text \<open>
  \<^verbatim>\<open>departmentStats[dept]\<close> is the object \<^verbatim>\<open>{ questionAnalysis }\<close>; the embedding keeps
  its one field. The key is the department as a property name; assigning to
  \<^verbatim>\<open>__proto__\<close> adds no property.
\<close>

record analysis =
  overview :: overview
  departmentStats :: "string \<rightharpoonup> questionAnalysis"

definition departmentStep ::
  "row list \<Rightarrow> string option \<Rightarrow> (string \<rightharpoonup> questionAnalysis)
     \<Rightarrow> error + (string \<rightharpoonup> questionAnalysis)" where
  "departmentStep csvResponses dept stats =
     (case analyseDepartment (deptResponsesOf csvResponses dept) of
        Inl e \<Rightarrow> Inl e
      | Inr qa \<Rightarrow>
          if template dept = ''__proto__'' then Inr stats
          else Inr (stats(template dept \<mapsto> qa)))"

text \<open>
  \<^verbatim>\<open>generateAnalysis\<close> on \<open>csvResponses\<close>, the rows that \<^verbatim>\<open>readCSV\<close> resolves to (the source calls them
  \<^verbatim>\<open>responses\<close>, which here names the field of an entry); \<^verbatim>\<open>readCSV\<close> rejects an
  empty file, and the \<^verbatim>\<open>catch\<close> block throws again what it caught.
\<close>

definition generateAnalysis :: "row list \<Rightarrow> error + analysis" where
  "generateAnalysis csvResponses =
     (if csvResponses = [] then Inl CsvFileEmpty
      else
        (let departments = departmentsOf csvResponses;
             overallMetrics = calculateSatisfactionPercentage csvResponses;
             highest = highestDissatisfaction csvResponses;
             highestDissatisfactionDept = fst highest;
             ov = \<lparr>numberOfDepartments = length departments,
                   averageSatisfaction = Percent (satisfaction overallMetrics),
                   averageDissatisfaction = Percent (dissatisfaction overallMetrics),
                   departmentWithHighestDissatisfaction =
                     (if falsy highestDissatisfactionDept then ''None''
                      else template highestDissatisfactionDept),
                   highestDissatisfactionRate = snd highest\<rparr>
         in case forEach (departmentStep csvResponses) departments Map.empty of
              Inl e \<Rightarrow> Inl e
            | Inr stats \<Rightarrow> Inr \<lparr>overview = ov, departmentStats = stats\<rparr>))"

subsection \<open>The grouping of \<^verbatim>\<open>analyze\<close>\<close>

text \<open>\<^verbatim>\<open>response.department || "Unknown"\<close>, the department under which \<^verbatim>\<open>analyze\<close> groups.\<close>

definition analyzeDept :: "string option \<Rightarrow> string" where
  "analyzeDept department = (if falsy department then ''Unknown'' else template department)"

subsection \<open>Reading the result\<close>

text \<open>The entry of a question of a department in the analysis, when there is one.\<close>

definition entryOf :: "row list \<Rightarrow> string \<Rightarrow> string \<Rightarrow> questionEntry option" where
  "entryOf csvResponses dept qNum =
     (case generateAnalysis csvResponses of
        Inl e \<Rightarrow> None
      | Inr a \<Rightarrow> (case departmentStats a dept of None \<Rightarrow> None | Some qa \<Rightarrow> qa qNum))"

definition overviewOf :: "row list \<Rightarrow> overview option" where
  "overviewOf csvResponses =
     (case generateAnalysis csvResponses of Inl e \<Rightarrow> None | Inr a \<Rightarrow> Some (overview a))"


text \<open>The sum of two records of totals, field by field.\<close>

definition addTotals :: "totals \<Rightarrow> totals \<Rightarrow> totals" where
  "addTotals t u =
     \<lparr>satisfactionScore = satisfactionScore t + satisfactionScore u,
      dissatisfactionScore = dissatisfactionScore t + dissatisfactionScore u,
      satisfactionQuestions = satisfactionQuestions t + satisfactionQuestions u,
      dissatisfactionQuestions = dissatisfactionQuestions t + dissatisfactionQuestions u\<rparr>"

subsection \<open>The classifier of the specification\<close>

text \<open>
  The classifier as section 4.2 of the specification words it, over all the samples of a
  question: an empty sample set is \<open>Text\<close>; then the first rule that applies, in the order
  star rating, multi-select (\<open>Checkbox\<close> in the source), single choice (\<open>MCQ\<close>), text.
  It is stated for comparison with \<open>determineQuestionType\<close> and is not part of the source.
\<close>

definition specClassify :: "string list \<Rightarrow> questionType" where
  "specClassify samples =
     (if samples = [] then Text
      else if list_ex (\<lambda>a. starMatch a \<noteq> None) samples \<or> list_all isBareStar samples
      then StarRating
      else if list_ex (\<lambda>a. CHR '','' \<in> set a) samples then Checkbox
      else if list_all (\<lambda>a. a \<in> set mcqOptions) samples then MCQ
      else Text)"

section \<open>The scorer\<close>

subsection \<open>Totals add up\<close>

text \<open>
  Every step of the scorer adds to the totals it is given, so the totals of a list of
  rows are the sum of what each row contributes on its own.
\<close>

lemma addTotals_noTotals [simp]: "addTotals t noTotals = t" "addTotals noTotals t = t"
  by (simp_all add: addTotals_def noTotals_def)






lemma scoreResponses_Nil [simp]: "scoreResponses [] = noTotals"
  by (simp add: scoreResponses_def)



lemma fold_noTotals:
  assumes "\<forall>x\<in>set xs. f x noTotals = noTotals"
  shows "fold f xs noTotals = noTotals"
  using assms by (induction xs) simp_all

subsection \<open>Star answers\<close>

text \<open>
  Claim C2. The specification has the scorer read the star count from a bare digit as
  well as from the pattern \<^verbatim>\<open>N star(s)\<close>. The scorer only tries the pattern: the answer
  \<^verbatim>\<open>4\<close>, which the classifier takes for a star rating, adds nothing to either total, and
  the percentages of the survey with that one answer are both 0 instead of a
  satisfaction of 80. The answer \<^verbatim>\<open>4 stars\<close> is scored as the claim says.
\<close>

theorem bare_digit_star_answer_is_not_scored:
  "map_option type
     (entryOf [[(''Department'', ''A''), (''Question 1'', ''Rate us''), (''Answer 1'', ''4'')]]
        ''A'' ''1'') = Some StarRating
   \<and> scoreAnswer ''4'' noTotals = noTotals
   \<and> calculateSatisfactionPercentage
        [[(''Department'', ''A''), (''Question 1'', ''Rate us''), (''Answer 1'', ''4'')]]
      = \<lparr>satisfaction = 0, dissatisfaction = 0\<rparr>
   \<and> scoreAnswer ''4 stars'' noTotals
      = noTotals\<lparr>satisfactionScore := 80, satisfactionQuestions := 1\<rparr>"
  by code_simp

subsection \<open>The range of one contribution\<close>




subsection \<open>Answers that are not scored\<close>

lemma map_of_levels_None: "k \<notin> set mcqOptions \<Longrightarrow> map_of satisfactionLevels k = None"
  by (simp add: mcqOptions_def satisfactionLevels_def)

lemma in_dropWhile: "x \<in> set xs \<Longrightarrow> \<not> P x \<Longrightarrow> x \<in> set (dropWhile P xs)"
  by (induction xs) auto

lemma comma_in_trim:
  assumes "CHR '','' \<in> set a"
  shows "CHR '','' \<in> set (trim a)"
proof -
  have nw: "\<not> isWhiteSpace CHR '',''" by (simp add: isWhiteSpace_def)
  from assms nw have "CHR '','' \<in> set (dropWhile isWhiteSpace a)" by (rule in_dropWhile)
  then have "CHR '','' \<in> set (rev (dropWhile isWhiteSpace a))" by simp
  then have "CHR '','' \<in> set (dropWhile isWhiteSpace (rev (dropWhile isWhiteSpace a)))"
    using nw by (rule in_dropWhile)
  then show ?thesis by (simp add: trim_def)
qed

lemma comma_not_option: "CHR '','' \<in> set s \<Longrightarrow> s \<notin> set mcqOptions"
  by (auto simp: mcqOptions_def)

text \<open>
  Claim C3, as stated: an answer of a question classified as multi-select (\<open>Checkbox\<close>)
  or \<open>Text\<close> is never scored. The scorer works on the rows and never sees the type of a
  question. In the department below, question 1 is \<open>Text\<close> and question 2 is
  \<open>Checkbox\<close> by their first answers; the answers of the second row are scored all the
  same, and the survey reports a satisfaction of 75 and a dissatisfaction of 100.
\<close>

theorem scorer_ignores_cached_type:
  "map (\<lambda>q. map_option type
          (entryOf
             [[(''Department'', ''A''), (''Question 1'', ''Comments''),
               (''Answer 1'', ''It was fine''), (''Question 2'', ''Colours''),
               (''Answer 2'', ''Red, Blue'')],
              [(''Department'', ''A''), (''Question 1'', ''Comments''),
               (''Answer 1'', ''Satisfied''), (''Question 2'', ''Colours''),
               (''Answer 2'', ''Very Dissatisfied'')]]
             ''A'' q)) [''1'', ''2'']
     = [Some Text, Some Checkbox]
   \<and> calculateSatisfactionPercentage
        [[(''Department'', ''A''), (''Question 1'', ''Comments''),
          (''Answer 1'', ''It was fine''), (''Question 2'', ''Colours''),
          (''Answer 2'', ''Red, Blue'')],
         [(''Department'', ''A''), (''Question 1'', ''Comments''),
          (''Answer 1'', ''Satisfied''), (''Question 2'', ''Colours''),
          (''Answer 2'', ''Very Dissatisfied'')]]
     = \<lparr>satisfaction = 75, dissatisfaction = 100\<rparr>"
  by code_simp

text \<open>
  Claim C3, amended. An answer that the classifier, given that answer, takes for
  \<open>Checkbox\<close> or \<open>Text\<close> leaves the totals as they are.
\<close>

theorem checkbox_and_text_answers_are_not_scored:
  assumes "determineQuestionType (Some a) samples = Checkbox
           \<or> determineQuestionType (Some a) samples = Text"
  shows "scoreAnswer a t = t"
proof (cases "a = []")
  case True
  then show ?thesis by (simp add: scoreAnswer_def trim_def satisfactionLevels_def)
next
  case False
  with assms have nostar: "starMatch a = None"
    by (auto simp: determineQuestionType_def split: if_splits)
  from assms False have "CHR '','' \<in> set a \<or> trim a \<notin> set mcqOptions"
    by (auto simp: determineQuestionType_def split: if_splits)
  then have "trim a \<notin> set mcqOptions"
    using comma_in_trim comma_not_option by blast
  then have "map_of satisfactionLevels (trim a) = None" by (rule map_of_levels_None)
  with nostar show ?thesis by (simp add: scoreAnswer_def)
qed

theorem checkbox_and_text_answers_are_not_scored_witness:
  "determineQuestionType (Some ''Red, Blue'') [] = Checkbox
   \<and> scoreAnswer ''Red, Blue'' noTotals = noTotals
   \<and> determineQuestionType (Some ''It was fine'') [] = Text
   \<and> scoreAnswer ''It was fine'' noTotals = noTotals"
proof -
  have c: "determineQuestionType (Some ''Red, Blue'') [] = Checkbox" by code_simp
  have t: "determineQuestionType (Some ''It was fine'') [] = Text" by code_simp
  from checkbox_and_text_answers_are_not_scored [of "''Red, Blue''" "[]" noTotals]
    checkbox_and_text_answers_are_not_scored [of "''It was fine''" "[]" noTotals] c t
  show ?thesis by simp
qed

subsection \<open>No scored answer\<close>

text \<open>
  Claim C8. When no answer of a list of rows is scored (no key of any row changes the
  totals), both counters stay at 0, no quotient is formed, and both percentages are 0.
  The list is any list of rows: those of one department, or all of them. The result is a
  pair of integers, so there is no value that is not a number.
\<close>

theorem no_scored_answer_gives_zero:
  assumes "\<forall>r\<in>set rs. \<forall>k\<in>set (Object_keys r). scoreKey r k noTotals = noTotals"
  shows "satisfactionQuestions (scoreResponses rs) = 0
         \<and> dissatisfactionQuestions (scoreResponses rs) = 0
         \<and> calculateSatisfactionPercentage rs = \<lparr>satisfaction = 0, dissatisfaction = 0\<rparr>"
proof -
  have "\<forall>r\<in>set rs. scoreResponse r noTotals = noTotals"
    using assms by (simp add: scoreResponse_def fold_noTotals)
  then have "scoreResponses rs = noTotals"
    unfolding scoreResponses_def by (simp add: fold_noTotals)
  then show ?thesis
    by (simp add: calculateSatisfactionPercentage_def noTotals_def)
qed

theorem no_scored_answer_gives_zero_witness:
  "calculateSatisfactionPercentage
     [[(''Department'', ''A''), (''Question 1'', ''Service''), (''Answer 1'', ''Neutral''),
       (''Question 2'', ''Comments''), (''Answer 2'', ''No answer'')]]
   = \<lparr>satisfaction = 0, dissatisfaction = 0\<rparr>
   \<and> calculateSatisfactionPercentage [] = \<lparr>satisfaction = 0, dissatisfaction = 0\<rparr>"
proof -
  have h: "\<forall>r\<in>set [[(''Department'', ''A''), (''Question 1'', ''Service''),
                       (''Answer 1'', ''Neutral''), (''Question 2'', ''Comments''),
                       (''Answer 2'', ''No answer'')]].
             \<forall>k\<in>set (Object_keys r). scoreKey r k noTotals = noTotals"
    by code_simp
  have e: "\<forall>r\<in>set ([] :: row list). \<forall>k\<in>set (Object_keys r). scoreKey r k noTotals = noTotals"
    by simp
  from no_scored_answer_gives_zero [OF h] no_scored_answer_gives_zero [OF e]
  show ?thesis by simp
qed

text \<open>Each percentage on its own is 0 as soon as its own counter is 0.\<close>

lemma zero_count_satisfaction:
  "satisfactionQuestions (scoreResponses rs) = 0 \<Longrightarrow>
     satisfaction (calculateSatisfactionPercentage rs) = 0"
  by (simp add: calculateSatisfactionPercentage_def Let_def)

lemma zero_count_dissatisfaction:
  "dissatisfactionQuestions (scoreResponses rs) = 0 \<Longrightarrow>
     dissatisfaction (calculateSatisfactionPercentage rs) = 0"
  by (simp add: calculateSatisfactionPercentage_def Let_def)

section \<open>Departments\<close>

subsection \<open>The list of departments\<close>

lemma set_fold_setAdd: "set (fold (\<lambda>x s. setAdd s x) xs acc) = set acc \<union> set xs"
  by (induction xs arbitrary: acc) (auto simp: setAdd_def)

lemma distinct_fold_setAdd: "distinct acc \<Longrightarrow> distinct (fold (\<lambda>x s. setAdd s x) xs acc)"
  by (induction xs arbitrary: acc) (auto simp: setAdd_def)

lemma set_newSet [simp]: "set (newSet xs) = set xs"
  by (simp add: newSet_def set_fold_setAdd)

lemma distinct_newSet [simp]: "distinct (newSet xs)"
  by (simp add: newSet_def distinct_fold_setAdd)

subsection \<open>Pooled totals\<close>






subsection \<open>The department with the highest dissatisfaction\<close>

text \<open>
  The loop keeps the first department whose percentage exceeds every earlier one and the
  starting rate.
\<close>

lemma highest_fold:
  assumes "fold (highestStep rows) ds st = (n, v)"
  shows "(\<forall>d\<in>set ds.
            dissatisfaction (calculateSatisfactionPercentage (deptResponsesOf rows d)) \<le> v)
         \<and> snd st \<le> v
         \<and> ((n, v) = st
            \<or> (\<exists>i<length ds. ds ! i = n \<and> snd st < v
                  \<and> dissatisfaction (calculateSatisfactionPercentage (deptResponsesOf rows n)) = v
                  \<and> (\<forall>j<i. dissatisfaction
                              (calculateSatisfactionPercentage (deptResponsesOf rows (ds ! j)))
                            < v)))"
  using assms
proof (induction ds arbitrary: n v rule: rev_induct)
  case Nil
  then show ?case by simp
next
  case (snoc d ds)
  let ?f = "\<lambda>d. dissatisfaction (calculateSatisfactionPercentage (deptResponsesOf rows d))"
  obtain n' v' where mid: "fold (highestStep rows) ds st = (n', v')"
    by (cases "fold (highestStep rows) ds st")
  note IH = snoc.IH [OF mid]
  from IH have le: "\<forall>x\<in>set ds. ?f x \<le> v'" and st: "snd st \<le> v'" by blast+
  from snoc.prems mid have step: "highestStep rows d (n', v') = (n, v)" by simp
  show ?case
  proof (cases "?f d > v'")
    case True
    with step have nv: "n = d" "v = ?f d" by (auto simp: highestStep_def Let_def)
    have "\<forall>j<length ds. ?f ((ds @ [d]) ! j) < v"
    proof (intro allI impI)
      fix j assume j: "j < length ds"
      then have "ds ! j \<in> set ds" by simp
      with le have "?f (ds ! j) \<le> v'" by blast
      with True nv j show "?f ((ds @ [d]) ! j) < v" by (simp add: nth_append)
    qed
    moreover have "(ds @ [d]) ! length ds = n" using nv by simp
    moreover have "snd st < v" using st True nv by simp
    ultimately have "\<exists>i<length (ds @ [d]). (ds @ [d]) ! i = n \<and> snd st < v \<and> ?f n = v
                       \<and> (\<forall>j<i. ?f ((ds @ [d]) ! j) < v)"
      using nv by (intro exI [of _ "length ds"]) simp
    moreover have "\<forall>x\<in>set (ds @ [d]). ?f x \<le> v" using le True nv by auto
    moreover have "snd st \<le> v" using \<open>snd st < v\<close> by simp
    ultimately show ?thesis by blast
  next
    case False
    with step have nv: "n = n'" "v = v'" by (simp_all add: highestStep_def Let_def)
    from IH have "(n', v') = st
       \<or> (\<exists>i<length ds. ds ! i = n' \<and> snd st < v' \<and> ?f n' = v' \<and> (\<forall>j<i. ?f (ds ! j) < v'))"
      by blast
    then have "(n, v) = st
       \<or> (\<exists>i<length (ds @ [d]). (ds @ [d]) ! i = n \<and> snd st < v \<and> ?f n = v
              \<and> (\<forall>j<i. ?f ((ds @ [d]) ! j) < v))"
    proof
      assume "(n', v') = st"
      with nv show ?thesis by simp
    next
      assume "\<exists>i<length ds. ds ! i = n' \<and> snd st < v' \<and> ?f n' = v' \<and> (\<forall>j<i. ?f (ds ! j) < v')"
      then obtain i where i: "i < length ds" "ds ! i = n'" "snd st < v'" "?f n' = v'"
        "\<forall>j<i. ?f (ds ! j) < v'" by blast
      then have "i < length (ds @ [d]) \<and> (ds @ [d]) ! i = n \<and> snd st < v \<and> ?f n = v
              \<and> (\<forall>j<i. ?f ((ds @ [d]) ! j) < v)"
        using nv by (auto simp: nth_append)
      then show ?thesis by blast
    qed
    moreover have "\<forall>x\<in>set (ds @ [d]). ?f x \<le> v" using le False nv by auto
    moreover have "snd st \<le> v" using st nv by simp
    ultimately show ?thesis by blast
  qed
qed

text \<open>
  When every row names its department, the report is right: \<^verbatim>\<open>None\<close> when no
  department has a positive dissatisfaction percentage, and otherwise the department
  with the highest percentage that comes first in the order of the input.
\<close>

lemma highest_department_when_named:
  assumes "generateAnalysis rows = Inr a"
    and "\<forall>r\<in>set rows. \<exists>name. getProp r ''Department'' = Some name \<and> name \<noteq> []"
  shows "(\<forall>d\<in>set (departmentsOf rows).
            dissatisfaction (calculateSatisfactionPercentage (deptResponsesOf rows d)) \<le> 0)
           \<and> departmentWithHighestDissatisfaction (overview a) = ''None''
         \<or> (\<exists>i<length (departmentsOf rows).
              departmentsOf rows ! i = Some (departmentWithHighestDissatisfaction (overview a))
              \<and> 0 < dissatisfaction (calculateSatisfactionPercentage
                       (deptResponsesOf rows (departmentsOf rows ! i)))
              \<and> (\<forall>d\<in>set (departmentsOf rows).
                    dissatisfaction (calculateSatisfactionPercentage (deptResponsesOf rows d))
                    \<le> dissatisfaction (calculateSatisfactionPercentage
                         (deptResponsesOf rows (departmentsOf rows ! i))))
              \<and> (\<forall>j<i. dissatisfaction (calculateSatisfactionPercentage
                            (deptResponsesOf rows (departmentsOf rows ! j)))
                        < dissatisfaction (calculateSatisfactionPercentage
                            (deptResponsesOf rows (departmentsOf rows ! i)))))"
proof -
  let ?f = "\<lambda>d. dissatisfaction (calculateSatisfactionPercentage (deptResponsesOf rows d))"
  let ?ds = "departmentsOf rows"
  obtain n v where nv: "highestDissatisfaction rows = (n, v)"
    by (cases "highestDissatisfaction rows")
  then have fold: "fold (highestStep rows) ?ds (Some [], 0) = (n, v)"
    by (simp add: highestDissatisfaction_def)
  from assms(1) nv have name: "departmentWithHighestDissatisfaction (overview a)
      = (if falsy n then ''None'' else template n)"
    by (auto simp: generateAnalysis_def Let_def split: if_splits sum.splits)
  note H = highest_fold [OF fold]
  from H have "(n, v) = (Some [], 0)
      \<or> (\<exists>i<length ?ds. ?ds ! i = n \<and> 0 < v \<and> ?f n = v \<and> (\<forall>j<i. ?f (?ds ! j) < v))"
    by simp
  then show ?thesis
  proof
    assume "(n, v) = (Some [], 0)"
    with H name show ?thesis by (simp add: falsy_def)
  next
    assume "\<exists>i<length ?ds. ?ds ! i = n \<and> 0 < v \<and> ?f n = v \<and> (\<forall>j<i. ?f (?ds ! j) < v)"
    then obtain i where i: "i < length ?ds" "?ds ! i = n" "0 < v" "?f n = v"
      "\<forall>j<i. ?f (?ds ! j) < v" by blast
    from i(1,2) have "n \<in> set ?ds" by (metis nth_mem)
    then have "n \<in> (\<lambda>r. getProp r ''Department'') ` set rows"
      by (simp add: departmentsOf_def)
    with assms(2) obtain s where s: "n = Some s" "s \<noteq> []" by auto
    with name have "departmentWithHighestDissatisfaction (overview a) = s"
      by (simp add: falsy_def template_def)
    with s i H show ?thesis by auto
  qed
qed

text \<open>
  Claim C6. The department reported is the first one with the highest dissatisfaction
  percentage, and \<^verbatim>\<open>None\<close> stands for no dissatisfaction at all. The source tests the
  name of the department found, not whether one was found: when the rows of the highest
  department have an empty \<^verbatim>\<open>Department\<close> column the report says \<^verbatim>\<open>None\<close>, next to
  a highest rate of 100.
\<close>

theorem empty_named_department_is_reported_as_None:
  "map_option (\<lambda>ov. (departmentWithHighestDissatisfaction ov, highestDissatisfactionRate ov))
     (overviewOf
        [[(''Department'', ''''), (''Question 1'', ''Service''),
          (''Answer 1'', ''Very Dissatisfied'')],
         [(''Department'', ''B''), (''Question 1'', ''Service''),
          (''Answer 1'', ''Dissatisfied'')]])
   = Some (''None'', 100)"
  by code_simp

subsection \<open>The default department\<close>

text \<open>
  Claim C9. A row without a department belongs to the department \<^verbatim>\<open>Unknown\<close>. The
  grouping of \<open>analyze\<close> does that; \<open>generateAnalysis\<close> takes the column as it is. For
  one row with an empty \<^verbatim>\<open>Department\<close> cell and a shorter row with no such cell, the
  statistics are filed under the empty name and under \<^verbatim>\<open>undefined\<close>, nothing is filed
  under \<^verbatim>\<open>Unknown\<close>, and two departments are counted.
\<close>

theorem missing_department_is_not_Unknown:
  "analyzeDept (Some '''') = ''Unknown'' \<and> analyzeDept None = ''Unknown''
   \<and> (case generateAnalysis
             [[(''Question 1'', ''Service''), (''Answer 1'', ''Dissatisfied''),
               (''Department'', '''')],
              [(''Question 1'', ''Service''), (''Answer 1'', ''Satisfied'')]] of
         Inl e \<Rightarrow> False
       | Inr a \<Rightarrow>
           departmentStats a ''Unknown'' = None
           \<and> departmentStats a '''' \<noteq> None
           \<and> departmentStats a ''undefined'' \<noteq> None
           \<and> numberOfDepartments (overview a) = 2
           \<and> departmentWithHighestDissatisfaction (overview a) = ''None''
           \<and> highestDissatisfactionRate (overview a) = 75)"
  by code_simp

section \<open>The analysis of the questions\<close>

subsection \<open>Classification reads one answer\<close>

text \<open>
  Claim C1. The specification has the classifier look at all the non-empty answers of a
  question. \<open>generateAnalysis\<close> collects them (\<open>allAnswersForQuestion\<close>) and passes them
  on, but \<open>determineQuestionType\<close> never reads its second parameter: the type comes from
  the answer of the row that first shows the question. For a department whose answers to
  question 1 are \<^verbatim>\<open>fine\<close> and then \<^verbatim>\<open>Red, Blue\<close>, the analysis holds \<open>Text\<close>, where
  the rule over all samples (a sample with a comma) gives the multi-select type.
\<close>

theorem classifier_reads_first_answer_only:
  "map_option type
     (entryOf
        [[(''Department'', ''A''), (''Question 1'', ''Colours''), (''Answer 1'', ''fine'')],
         [(''Department'', ''A''), (''Question 1'', ''Colours''),
          (''Answer 1'', ''Red, Blue'')]]
        ''A'' ''1'') = Some Text
   \<and> specClassify [''fine'', ''Red, Blue''] = Checkbox"
  by code_simp

subsection \<open>Invariants of the loops\<close>


lemma type_tallyAnswer [simp]: "type (tallyAnswer a e) = type e"
  by (simp add: tallyAnswer_def Let_def)


subsection \<open>The type of a question is set once\<close>









subsection \<open>The option counts of a star rating\<close>










end
